theory Spec2Isabelle
  imports Complex_Main
begin

section \<open>Moving-average crossover strategy and backtest: the embedding\<close>

text \<open>
  The development embeds \<^verbatim>\<open>strategy.py\<close> (moving averages, crossover signals) and
  \<^verbatim>\<open>backtest.py\<close> (the portfolio simulation of \<^verbatim>\<open>Backtest.run_backtest\<close> and the
  metrics of \<^verbatim>\<open>Backtest._calculate_performance_metrics\<close>).

  Numbers. Python's \<^verbatim>\<open>float\<close> and NumPy's \<^verbatim>\<open>float64\<close> are modelled by \<^typ>\<open>real\<close>:
  every arithmetic operation is exact, there is no rounding, and there are no infinities
  and no NaN among the prices. Two consequences are written out in the model:
  \<^item> a value that pandas reports as NaN because it does not exist (a moving average with
    too little history, the first period's return, the deviation of fewer than two
    returns) is \<^term>\<open>None\<close> of an option type;
  \<^item> a NumPy or pandas division whose divisor is zero does not raise in the source: it
    yields an infinity or NaN and the computation goes on. The model has no such values,
    so it ends there with the outcome \<open>DivideByZero\<close>.
  Python's \<^verbatim>\<open>int\<close> is \<^typ>\<open>int\<close>. Exceptions are values: a function that can raise
  returns \<open>error + 'a\<close>, with \<^term>\<open>Inl\<close> for the exception.
\<close>

datatype error = ValueError | OverflowError | KeyError | IndexError | DivideByZero

type_synonym date = nat

subsection \<open>The backtest: data\<close>

text \<open>The \<^verbatim>\<open>Backtest\<close> object as constructed by \<^verbatim>\<open>__init__\<close>.\<close>

record backtest =
  initial_capital :: real
  commission :: real

text \<open>A row of the strategy data frame, with the columns the backtest is handed.\<close>

record row =
  Date :: date
  Close :: real
  Signal :: int
  Position :: int

text \<open>
  The dictionaries appended to \<^verbatim>\<open>trade_log\<close>. A BUY entry has the key \<^verbatim>\<open>Cost\<close>
  and no key \<^verbatim>\<open>Proceeds\<close>; a SELL entry has \<^verbatim>\<open>Proceeds\<close> and no \<^verbatim>\<open>Cost\<close>.
\<close>

record trade =
  tDate :: date
  Action :: string
  tShares :: int
  tPrice :: real
  Cost :: "real option"
  Proceeds :: "real option"
  Commission :: real
  Cash_After :: real
  Shares_After :: int

text \<open>The dictionaries appended to \<^verbatim>\<open>portfolio_values\<close>, one per period.\<close>

record snapshot =
  sDate :: date
  Cash :: real
  Shares :: int
  Price :: real
  Portfolio_Value :: real

text \<open>The local variables that \<^verbatim>\<open>run_backtest\<close> carries from one row to the next.\<close>

record sim_state =
  cash :: real
  shares :: int
  trade_log :: "trade list"
  portfolio_values :: "snapshot list"

subsection \<open>The backtest: one period\<close>

text \<open>Python's \<^verbatim>\<open>int(x)\<close> on a float: truncation toward zero.\<close>

definition py_int :: "real \<Rightarrow> int" where
  "py_int x = (if 0 \<le> x then \<lfloor>x\<rfloor> else \<lceil>x\<rceil>)"

text \<open>The locals of the BUY branch.\<close>

definition buy_commission :: "backtest \<Rightarrow> sim_state \<Rightarrow> real" where
  "buy_commission b st = cash st * commission b"

definition available_cash :: "backtest \<Rightarrow> sim_state \<Rightarrow> real" where
  "available_cash b st = cash st - buy_commission b st"

text \<open>
  \<^verbatim>\<open>shares_to_buy = int(available_cash / price)\<close>. The price comes out of the data
  frame as a NumPy float, so a zero price makes the quotient an infinity (or NaN when
  the available cash is zero as well), and \<^verbatim>\<open>int\<close> raises OverflowError (ValueError).
\<close>

definition shares_to_buy :: "backtest \<Rightarrow> sim_state \<Rightarrow> real \<Rightarrow> error + int" where
  "shares_to_buy b st price =
     (if price = 0 then (if available_cash b st = 0 then Inl ValueError else Inl OverflowError)
      else Inr (py_int (available_cash b st / price)))"

definition buy_trade :: "date \<Rightarrow> int \<Rightarrow> real \<Rightarrow> real \<Rightarrow> real \<Rightarrow> real \<Rightarrow> int \<Rightarrow> trade" where
  "buy_trade d n price cost comm cash_after shares_after =
     \<lparr>tDate = d, Action = ''BUY'', tShares = n, tPrice = price, Cost = Some cost,
      Proceeds = None, Commission = comm, Cash_After = cash_after,
      Shares_After = shares_after\<rparr>"

definition sell_trade :: "date \<Rightarrow> int \<Rightarrow> real \<Rightarrow> real \<Rightarrow> real \<Rightarrow> real \<Rightarrow> trade" where
  "sell_trade d n price proceeds comm cash_after =
     \<lparr>tDate = d, Action = ''SELL'', tShares = n, tPrice = price, Cost = None,
      Proceeds = Some proceeds, Commission = comm, Cash_After = cash_after,
      Shares_After = 0\<rparr>"

text \<open>The end of the loop body: the period's snapshot is appended in every case.\<close>

definition record_value :: "row \<Rightarrow> sim_state \<Rightarrow> sim_state" where
  "record_value r st =
     st\<lparr>portfolio_values := portfolio_values st @
          [\<lparr>sDate = Date r, Cash = cash st, Shares = shares st, Price = Close r,
            Portfolio_Value = cash st + real_of_int (shares st) * Close r\<rparr>]\<rparr>"

text \<open>The BUY branch, entered when \<^verbatim>\<open>signal == 1 and shares == 0\<close>.\<close>

definition execute_buy :: "backtest \<Rightarrow> sim_state \<Rightarrow> row \<Rightarrow> error + sim_state" where
  "execute_buy b st r =
     (case shares_to_buy b st (Close r) of
        Inl e \<Rightarrow> Inl e
      | Inr n \<Rightarrow>
          if 0 < n then
            (let cost = real_of_int n * Close r;
                 cash' = cash st - (cost + buy_commission b st);
                 shares' = shares st + n
             in Inr (st\<lparr>cash := cash', shares := shares',
                       trade_log := trade_log st @
                         [buy_trade (Date r) n (Close r) cost (buy_commission b st) cash' shares']\<rparr>))
          else Inr st)"

text \<open>The SELL branch, entered when \<^verbatim>\<open>signal == -1 and shares > 0\<close>.\<close>

definition execute_sell :: "backtest \<Rightarrow> sim_state \<Rightarrow> row \<Rightarrow> sim_state" where
  "execute_sell b st r =
     (let proceeds = real_of_int (shares st) * Close r;
          commission_cost = proceeds * commission b;
          cash' = cash st + (proceeds - commission_cost)
      in st\<lparr>cash := cash', shares := 0,
            trade_log := trade_log st @
              [sell_trade (Date r) (shares st) (Close r) proceeds commission_cost cash']\<rparr>)"

text \<open>One iteration of the loop over \<^verbatim>\<open>df.iterrows()\<close>.\<close>

definition trade_step :: "backtest \<Rightarrow> sim_state \<Rightarrow> row \<Rightarrow> error + sim_state" where
  "trade_step b st r =
     (if Signal r = 1 \<and> shares st = 0 then
        (case execute_buy b st r of Inl e \<Rightarrow> Inl e | Inr st' \<Rightarrow> Inr (record_value r st'))
      else if Signal r = - 1 \<and> 0 < shares st then Inr (record_value r (execute_sell b st r))
      else Inr (record_value r st))"

definition init_state :: "backtest \<Rightarrow> sim_state" where
  "init_state b = \<lparr>cash = initial_capital b, shares = 0, trade_log = [], portfolio_values = []\<rparr>"

fun run_loop :: "backtest \<Rightarrow> sim_state \<Rightarrow> row list \<Rightarrow> error + sim_state" where
  "run_loop b st [] = Inr st"
| "run_loop b st (r # rs) =
     (case trade_step b st r of Inl e \<Rightarrow> Inl e | Inr st' \<Rightarrow> run_loop b st' rs)"

subsection \<open>The backtest: performance metrics\<close>

text \<open>
  \<^verbatim>\<open>Series.pct_change()\<close>: no value for the first period, then
  \<^verbatim>\<open>value / previous - 1\<close>, a pandas division with no check of the divisor.
\<close>

fun returns_from :: "real \<Rightarrow> real list \<Rightarrow> error + real option list" where
  "returns_from prev [] = Inr []"
| "returns_from prev (v # vs) =
     (if prev = 0 then Inl DivideByZero
      else (case returns_from v vs of
              Inl e \<Rightarrow> Inl e
            | Inr rs \<Rightarrow> Inr (Some (v / prev - 1) # rs)))"

definition pct_change :: "real list \<Rightarrow> error + real option list" where
  "pct_change vs =
     (case vs of
        [] \<Rightarrow> Inr []
      | v # rest \<Rightarrow> (case returns_from v rest of Inl e \<Rightarrow> Inl e | Inr rs \<Rightarrow> Inr (None # rs)))"

text \<open>
  \<^verbatim>\<open>Series.std()\<close>: the sample standard deviation (one degree of freedom removed) of
  the values that exist, and no value when fewer than two exist.
\<close>

definition std :: "real option list \<Rightarrow> real option" where
  "std xs =
     (let ys = List.map_filter (\<lambda>x. x) xs; n = length ys
      in if n < 2 then None
         else (let mean = sum_list ys / real n
               in Some (sqrt (sum_list (map (\<lambda>y. (y - mean)\<^sup>2) ys) / real (n - 1)))))"

text \<open>\<^verbatim>\<open>Series.expanding().max()\<close>: the running peak.\<close>

fun peaks_from :: "real \<Rightarrow> real list \<Rightarrow> real list" where
  "peaks_from m [] = []"
| "peaks_from m (v # vs) = max m v # peaks_from (max m v) vs"

definition expanding_max :: "real list \<Rightarrow> real list" where
  "expanding_max vs = (case vs of [] \<Rightarrow> [] | v # rest \<Rightarrow> v # peaks_from v rest)"

text \<open>\<^verbatim>\<open>(value - peak) / peak\<close> column by column, again with no check of the divisor.\<close>

fun drawdowns :: "real list \<Rightarrow> real list \<Rightarrow> error + real list" where
  "drawdowns (v # vs) (p # ps) =
     (if p = 0 then Inl DivideByZero
      else (case drawdowns vs ps of Inl e \<Rightarrow> Inl e | Inr ds \<Rightarrow> Inr ((v - p) / p # ds)))"
| "drawdowns _ _ = Inr []"

text \<open>\<^verbatim>\<open>Series.min()\<close> of a column that has at least one row.\<close>

definition column_min :: "real list \<Rightarrow> real" where
  "column_min ds = fold min (tl ds) (hd ds)"

text \<open>
  The win-rate loop \<^verbatim>\<open>for i in range(0, len(trades) - 1, 2)\<close>: it reads the entries
  \<^verbatim>\<open>i\<close> and \<^verbatim>\<open>i + 1\<close>, looks up \<^verbatim>\<open>Proceeds\<close> in the second and \<^verbatim>\<open>Cost\<close> in
  the first (a KeyError when the key is absent) and counts the profitable pairs.
\<close>

fun count_profitable :: "nat \<Rightarrow> trade list \<Rightarrow> error + nat" where
  "count_profitable acc (bt # st # rest) =
     (case Proceeds st of
        None \<Rightarrow> Inl KeyError
      | Some p \<Rightarrow>
          (case Cost bt of
             None \<Rightarrow> Inl KeyError
           | Some c \<Rightarrow> count_profitable (if c < p then acc + 1 else acc) rest))"
| "count_profitable acc _ = Inr acc"

text \<open>
  The win-rate block. It returns \<^verbatim>\<open>(win_rate, total_trades)\<close>; the division of two
  Python integers is guarded by \<^verbatim>\<open>total_trades > 0\<close>.
\<close>

definition win_rate_block :: "trade list \<Rightarrow> error + (real \<times> nat)" where
  "win_rate_block trades =
     (if trades \<noteq> [] then
        (let total_trades = length trades div 2
         in case count_profitable 0 trades of
              Inl e \<Rightarrow> Inl e
            | Inr profitable_trades \<Rightarrow>
                Inr (if 0 < total_trades then real profitable_trades / real total_trades else 0,
                     total_trades))
      else Inr (0, 0))"

text \<open>The risk-adjusted ratio, guarded by \<^verbatim>\<open>volatility > 0\<close> (false for NaN as well).\<close>

definition sharpe :: "real \<Rightarrow> real option \<Rightarrow> real" where
  "sharpe total_return volatility =
     (case volatility of
        None \<Rightarrow> 0
      | Some v \<Rightarrow> if 0 < v then (total_return * 252) / (v * 252) else 0)"

text \<open>A NumPy division of two scalars: no exception, an infinity or NaN on a zero divisor.\<close>

definition np_divide :: "real \<Rightarrow> real \<Rightarrow> error + real" where
  "np_divide x y = (if y = 0 then Inl DivideByZero else Inr (x / y))"

text \<open>The data frame \<^verbatim>\<open>portfolio_df\<close> with the three columns the metrics add to it.\<close>

record portfolio_frame =
  frame_rows :: "snapshot list"
  Daily_Return :: "real option list"
  Peak :: "real list"
  Drawdown :: "real list"

text \<open>The result dictionary.\<close>

record results =
  res_initial_capital :: real
  final_value :: real
  total_return_pct :: real
  buy_hold_return_pct :: real
  buy_hold_final_value :: real
  excess_return_pct :: real
  volatility_pct :: "real option"
  sharpe_ratio :: real
  max_drawdown_pct :: real
  total_trades :: nat
  trade_pairs :: nat
  win_rate_pct :: real
  portfolio_df :: portfolio_frame
  trades_df :: "trade list"

text \<open>
  The strategy's return, \<^verbatim>\<open>(final_value - initial_capital) / initial_capital\<close>, on
  the column of portfolio values.
\<close>

definition strategy_return :: "backtest \<Rightarrow> real list \<Rightarrow> error + real" where
  "strategy_return b values = np_divide (last values - initial_capital b) (initial_capital b)"

text \<open>
  The buy-and-hold return, from the first and the last price of the data
  (\<^verbatim>\<open>iloc[0]\<close> raises IndexError on a frame without rows).
\<close>

definition buy_hold :: "row list \<Rightarrow> error + real" where
  "buy_hold data =
     (if data = [] then Inl IndexError
      else (let start_price = Close (hd data); end_price = Close (last data)
            in np_divide (end_price - start_price) start_price))"

text \<open>\<^verbatim>\<open>portfolio_df['Daily_Return'].std() * np.sqrt(252)\<close>.\<close>

definition annual_volatility :: "real option list \<Rightarrow> real option" where
  "annual_volatility daily = map_option (\<lambda>s. s * sqrt 252) (std daily)"

text \<open>The dictionary compiled at the end of \<^verbatim>\<open>_calculate_performance_metrics\<close>.\<close>

definition compile_results ::
  "backtest \<Rightarrow> trade list \<Rightarrow> snapshot list \<Rightarrow> real \<Rightarrow> real \<Rightarrow> real option list \<Rightarrow> real list \<Rightarrow>
   real list \<Rightarrow> real \<Rightarrow> nat \<Rightarrow> results" where
  "compile_results b trades pvs total_return buy_hold_return daily peak dd win_rate pairs =
     \<lparr>res_initial_capital = initial_capital b,
      final_value = last (map Portfolio_Value pvs),
      total_return_pct = total_return * 100,
      buy_hold_return_pct = buy_hold_return * 100,
      buy_hold_final_value = initial_capital b * (1 + buy_hold_return),
      excess_return_pct = (total_return - buy_hold_return) * 100,
      volatility_pct = map_option (\<lambda>v. v * 100) (annual_volatility daily),
      sharpe_ratio = sharpe total_return (annual_volatility daily),
      max_drawdown_pct = column_min dd * 100,
      total_trades = length trades,
      trade_pairs = pairs,
      win_rate_pct = win_rate * 100,
      portfolio_df = \<lparr>frame_rows = pvs, Daily_Return = daily, Peak = peak, Drawdown = dd\<rparr>,
      trades_df = trades\<rparr>"

text \<open>
  \<^verbatim>\<open>_calculate_performance_metrics\<close>, reading \<^verbatim>\<open>self.trades\<close> and
  \<^verbatim>\<open>self.portfolio_values\<close>, in the order of the source. The empty dictionary
  returned when there are no snapshots is \<^term>\<open>None\<close>.
\<close>

definition calculate_performance_metrics ::
  "backtest \<Rightarrow> trade list \<Rightarrow> snapshot list \<Rightarrow> row list \<Rightarrow> error + results option" where
  "calculate_performance_metrics b trades pvs data =
     (if pvs = [] then Inr None
      else
        (case strategy_return b (map Portfolio_Value pvs) of
           Inl e \<Rightarrow> Inl e
         | Inr total_return \<Rightarrow>
        (case buy_hold data of
           Inl e \<Rightarrow> Inl e
         | Inr buy_hold_return \<Rightarrow>
        (case pct_change (map Portfolio_Value pvs) of
           Inl e \<Rightarrow> Inl e
         | Inr daily \<Rightarrow>
        (case drawdowns (map Portfolio_Value pvs) (expanding_max (map Portfolio_Value pvs)) of
           Inl e \<Rightarrow> Inl e
         | Inr dd \<Rightarrow>
        (case win_rate_block trades of
           Inl e \<Rightarrow> Inl e
         | Inr (win_rate, pairs) \<Rightarrow>
             Inr (Some (compile_results b trades pvs total_return buy_hold_return daily
                          (expanding_max (map Portfolio_Value pvs)) dd win_rate pairs))))))))"

text \<open>
  \<^verbatim>\<open>run_backtest\<close>: the loop, then the metrics. The triple is \<^verbatim>\<open>self.trades\<close>,
  \<^verbatim>\<open>self.portfolio_values\<close> and the returned dictionary.
\<close>

definition run_backtest ::
  "backtest \<Rightarrow> row list \<Rightarrow> error + (trade list \<times> snapshot list \<times> results option)" where
  "run_backtest b data =
     (case run_loop b (init_state b) data of
        Inl e \<Rightarrow> Inl e
      | Inr st \<Rightarrow>
          (case calculate_performance_metrics b (trade_log st) (portfolio_values st) data of
             Inl e \<Rightarrow> Inl e
           | Inr res \<Rightarrow> Inr (trade_log st, portfolio_values st, res)))"

subsection \<open>The strategy: moving averages\<close>

text \<open>
  Modelled from the spec: \<^verbatim>\<open>Series.rolling(window=w).mean()\<close> is a call into the
  pandas library, whose code is not part of the repository. For a positive window the
  definition follows the specification's words: at every index \<open>i\<close> the arithmetic mean
  of the trailing \<open>w\<close> prices ending at \<open>i\<close>, and no value when \<open>i + 1 < w\<close>. For the
  other integers it follows the library: a negative window is rejected with ValueError,
  and a window of zero holds no observation, so no index has a value.
\<close>

definition trailing :: "nat \<Rightarrow> real list \<Rightarrow> nat \<Rightarrow> real list" where
  "trailing w xs i = take w (drop (Suc i - w) xs)"

definition rolling_mean :: "int \<Rightarrow> real list \<Rightarrow> error + real option list" where
  "rolling_mean window xs =
     (if window < 0 then Inl ValueError
      else Inr (map (\<lambda>i. if int (Suc i) < window \<or> window = 0 then None
                          else Some (sum_list (trailing (nat window) xs i) / real (nat window)))
                    [0..<length xs]))"

text \<open>
  \<^verbatim>\<open>calculate_moving_averages\<close> on the price column. It returns the two columns it adds
  to the frame, \<^verbatim>\<open>MA_{short_window}\<close> and \<^verbatim>\<open>MA_{long_window}\<close>, and compares the two
  window sizes nowhere.
\<close>

definition calculate_moving_averages ::
  "real list \<Rightarrow> int \<Rightarrow> int \<Rightarrow> error + (real option list \<times> real option list)" where
  "calculate_moving_averages prices short_window long_window =
     (case rolling_mean short_window prices of
        Inl e \<Rightarrow> Inl e
      | Inr short_ma \<Rightarrow>
          (case rolling_mean long_window prices of
             Inl e \<Rightarrow> Inl e
           | Inr long_ma \<Rightarrow> Inr (short_ma, long_ma)))"

subsection \<open>The strategy: crossover signals\<close>

text \<open>
  A row of the frame handed to \<^verbatim>\<open>generate_signals\<close>, reduced to the two columns it
  reads: the short and the long moving average, each possibly NaN.
\<close>

type_synonym ma_row = "real option \<times> real option"

text \<open>
  \<^verbatim>\<open>df.dropna(subset=[short_ma_col, long_ma_col])\<close>: the rows where both averages
  exist, each with its index label, here its position in the frame.
\<close>

fun dropna :: "nat \<Rightarrow> ma_row list \<Rightarrow> (nat \<times> real \<times> real) list" where
  "dropna i [] = []"
| "dropna i ((Some s, Some l) # rs) = (i, s, l) # dropna (Suc i) rs"
| "dropna i (_ # rs) = dropna (Suc i) rs"

text \<open>The comparison made for a pair of consecutive rows of \<^verbatim>\<open>valid_data\<close>.\<close>

definition crossover :: "real \<Rightarrow> real \<Rightarrow> real \<Rightarrow> real \<Rightarrow> int" where
  "crossover prev_short prev_long current_short current_long =
     (if prev_short \<le> prev_long \<and> current_long < current_short then 1
      else if prev_long \<le> prev_short \<and> current_short < current_long then - 1
      else 0)"

text \<open>
  The body of \<^verbatim>\<open>for i in range(1, len(valid_data))\<close>: it writes the Signal column at
  the label of the current valid row, and only when a cross is found.
\<close>

definition signal_step :: "(nat \<times> real \<times> real) list \<Rightarrow> nat \<Rightarrow> int list \<Rightarrow> int list" where
  "signal_step valid_data i sig =
     (case (valid_data ! i, valid_data ! (i - 1)) of
        ((current_idx, current_short, current_long), (prev_idx, prev_short, prev_long)) \<Rightarrow>
          (if prev_short \<le> prev_long \<and> current_long < current_short then sig[current_idx := 1]
           else if prev_long \<le> prev_short \<and> current_short < current_long
                then sig[current_idx := - 1]
           else sig))"

definition signal_column :: "ma_row list \<Rightarrow> int list" where
  "signal_column rows =
     (let sig0 = replicate (length rows) 0;
          valid_data = dropna 0 rows
      in if length valid_data < 2 then sig0
         else fold (signal_step valid_data) [1..<length valid_data] sig0)"

text \<open>The second loop: the Position column follows the signals.\<close>

fun position_column :: "int \<Rightarrow> int list \<Rightarrow> int list" where
  "position_column position [] = []"
| "position_column position (signal # rest) =
     (let position' = (if signal = 1 then 1 else if signal = - 1 then 0 else position)
      in position' # position_column position' rest)"

text \<open>\<^verbatim>\<open>generate_signals\<close>: the Signal and the Position column of the returned frame.\<close>

definition generate_signals :: "ma_row list \<Rightarrow> int list \<times> int list" where
  "generate_signals rows =
     (let sig = signal_column rows
      in if length (dropna 0 rows) < 2 then (sig, replicate (length rows) 0)
         else (sig, position_column 0 sig))"

section \<open>Predicates used in the proofs\<close>

text \<open>
  The trade log is made of BUY and SELL entries in turn, starting with a BUY, and each
  entry has the key the win-rate loop reads from it.
\<close>

definition paired_log :: "trade list \<Rightarrow> bool" where
  "paired_log ts \<longleftrightarrow>
     (\<forall>i<length ts. if even i then Action (ts ! i) = ''BUY'' \<and> Cost (ts ! i) \<noteq> None
                     else Action (ts ! i) = ''SELL'' \<and> Proceeds (ts ! i) \<noteq> None)"

text \<open>What links the share count to the trade log between two periods.\<close>

definition position_inv :: "sim_state \<Rightarrow> bool" where
  "position_inv st \<longleftrightarrow>
     0 \<le> shares st \<and> (0 < shares st \<longleftrightarrow> odd (length (trade_log st))) \<and> paired_log (trade_log st)"



text \<open>
  For the crossover detector: whether a row has both averages, the averages of the last
  such row of a frame, and the signal the detector is expected to give a row when the
  last row with both averages before it is known.
\<close>

fun last_valid :: "ma_row list \<Rightarrow> (real \<times> real) option" where
  "last_valid [] = None"
| "last_valid (r # rs) =
     (case last_valid rs of
        Some p \<Rightarrow> Some p
      | None \<Rightarrow> (case r of (Some s, Some l) \<Rightarrow> Some (s, l) | _ \<Rightarrow> None))"

definition both_exist :: "ma_row \<Rightarrow> bool" where
  "both_exist r \<longleftrightarrow> fst r \<noteq> None \<and> snd r \<noteq> None"

definition expected_signal :: "(real \<times> real) option \<Rightarrow> ma_row \<Rightarrow> int" where
  "expected_signal prev r =
     (case r of
        (Some s, Some l) \<Rightarrow> (case prev of None \<Rightarrow> 0 | Some (ps, pl) \<Rightarrow> crossover ps pl s l)
      | _ \<Rightarrow> 0)"

section \<open>The simulator, period by period\<close>

lemma py_int_pos_iff: "0 < py_int x \<longleftrightarrow> 0 < \<lfloor>x\<rfloor>"
  by (auto simp: py_int_def)

lemma py_int_floor: "0 < \<lfloor>x\<rfloor> \<Longrightarrow> py_int x = \<lfloor>x\<rfloor>"
  by (auto simp: py_int_def)

text \<open>
  Claim C2. In a period whose signal is Buy (\<open>1\<close>) while no shares are held, at a price
  other than zero: with \<open>commission_cost = cash \<times> r\<close>, taken on the whole cash, and
  \<open>n = \<lfloor>(cash - commission_cost) / price\<rfloor>\<close>, a positive \<open>n\<close> makes the period debit
  \<open>n \<times> price + commission_cost\<close>, hold \<open>n\<close> shares and append the BUY entry; when \<open>n\<close> is
  zero (or less) the period appends its snapshot and changes nothing else.
\<close>

theorem C2_buy_period:
  assumes "Signal r = 1" and "shares st = 0" and "Close r \<noteq> 0"
    and "commission_cost = cash st * commission b"
    and "n = \<lfloor>(cash st - commission_cost) / Close r\<rfloor>"
  shows "(0 < n \<longrightarrow>
            trade_step b st r =
              Inr (record_value r
                (st\<lparr>cash := cash st - (real_of_int n * Close r + commission_cost),
                    shares := n,
                    trade_log := trade_log st @
                      [buy_trade (Date r) n (Close r) (real_of_int n * Close r) commission_cost
                         (cash st - (real_of_int n * Close r + commission_cost)) n]\<rparr>)))
       \<and> (n \<le> 0 \<longrightarrow> trade_step b st r = Inr (record_value r st))"
proof (intro conjI impI)
  assume pos: "0 < n"
  with assms(4,5) have "py_int (available_cash b st / Close r) = n"
    by (simp add: py_int_floor available_cash_def buy_commission_def)
  with pos assms show "trade_step b st r =
              Inr (record_value r
                (st\<lparr>cash := cash st - (real_of_int n * Close r + commission_cost),
                    shares := n,
                    trade_log := trade_log st @
                      [buy_trade (Date r) n (Close r) (real_of_int n * Close r) commission_cost
                         (cash st - (real_of_int n * Close r + commission_cost)) n]\<rparr>))"
    by (simp add: trade_step_def execute_buy_def shares_to_buy_def buy_commission_def Let_def)
next
  assume "n \<le> 0"
  with assms(4,5) have "\<not> 0 < py_int (available_cash b st / Close r)"
    by (simp add: py_int_pos_iff available_cash_def buy_commission_def)
  with assms show "trade_step b st r = Inr (record_value r st)"
    by (simp add: trade_step_def execute_buy_def shares_to_buy_def)
qed

theorem C2_buy_period_witness:
  "trade_step \<lparr>initial_capital = 10000, commission = 0.001\<rparr>
      \<lparr>cash = 10000, shares = 0, trade_log = [], portfolio_values = []\<rparr>
      \<lparr>Date = 1, Close = 100, Signal = 1, Position = 1\<rparr>
    = Inr \<lparr>cash = 90, shares = 99, trade_log = [buy_trade 1 99 100 9900 10 90 99],
           portfolio_values =
             [\<lparr>sDate = 1, Cash = 90, Shares = 99, Price = 100, Portfolio_Value = 9990\<rparr>]\<rparr>
   \<and> trade_step \<lparr>initial_capital = 50, commission = 0.001\<rparr>
      \<lparr>cash = 50, shares = 0, trade_log = [], portfolio_values = []\<rparr>
      \<lparr>Date = 1, Close = 100, Signal = 1, Position = 1\<rparr>
    = Inr \<lparr>cash = 50, shares = 0, trade_log = [],
           portfolio_values =
             [\<lparr>sDate = 1, Cash = 50, Shares = 0, Price = 100, Portfolio_Value = 50\<rparr>]\<rparr>"
  using C2_buy_period [of "\<lparr>Date = 1, Close = 100, Signal = 1, Position = 1\<rparr>"
      "\<lparr>cash = 10000, shares = 0, trade_log = [], portfolio_values = []\<rparr>" 10
      "\<lparr>initial_capital = 10000, commission = 0.001\<rparr>" 99]
    C2_buy_period [of "\<lparr>Date = 1, Close = 100, Signal = 1, Position = 1\<rparr>"
      "\<lparr>cash = 50, shares = 0, trade_log = [], portfolio_values = []\<rparr>" "0.05"
      "\<lparr>initial_capital = 50, commission = 0.001\<rparr>" 0]
  by (simp add: record_value_def)

text \<open>
  Claim C3. In a period whose signal is Sell (\<open>- 1\<close>) while shares are held, with
  \<open>proceeds = shares \<times> price\<close> and \<open>commission_cost = proceeds \<times> r\<close>, the period credits
  \<open>proceeds - commission_cost\<close> to the cash, appends the SELL entry, and holds no share
  afterwards.
\<close>

theorem C3_sell_period:
  assumes "Signal r = - 1" and "0 < shares st"
    and "proceeds = real_of_int (shares st) * Close r"
    and "commission_cost = proceeds * commission b"
  shows "\<exists>st'. trade_step b st r = Inr st'
           \<and> cash st' = cash st + (proceeds - commission_cost)
           \<and> shares st' = 0
           \<and> trade_log st' = trade_log st @
                [sell_trade (Date r) (shares st) (Close r) proceeds commission_cost
                   (cash st + (proceeds - commission_cost))]
           \<and> Shares_After (last (trade_log st')) = 0
           \<and> Shares (last (portfolio_values st')) = 0"
  using assms
  by (simp add: trade_step_def execute_sell_def record_value_def sell_trade_def Let_def)

theorem C3_sell_period_witness:
  "\<exists>st'. trade_step \<lparr>initial_capital = 10000, commission = 0.001\<rparr>
      \<lparr>cash = 90, shares = 99, trade_log = [buy_trade 1 99 100 9900 10 90 99], portfolio_values = []\<rparr>
      \<lparr>Date = 2, Close = 100, Signal = - 1, Position = 0\<rparr> = Inr st'
    \<and> cash st' = 9980.1 \<and> shares st' = 0
    \<and> trade_log st' = [buy_trade 1 99 100 9900 10 90 99, sell_trade 2 99 100 9900 9.9 9980.1]"
  using C3_sell_period [of "\<lparr>Date = 2, Close = 100, Signal = - 1, Position = 0\<rparr>"
      "\<lparr>cash = 90, shares = 99, trade_log = [buy_trade 1 99 100 9900 10 90 99], portfolio_values = []\<rparr>"
      9900 "9.9" "\<lparr>initial_capital = 10000, commission = 0.001\<rparr>"]
  by auto

section \<open>Invariants of a run\<close>

lemma paired_log_snoc:
  "paired_log ts \<Longrightarrow>
   (if even (length ts) then Action t = ''BUY'' \<and> Cost t \<noteq> None
    else Action t = ''SELL'' \<and> Proceeds t \<noteq> None) \<Longrightarrow>
   paired_log (ts @ [t])"
  unfolding paired_log_def by (auto simp: nth_append less_Suc_eq)

lemma position_inv_init: "position_inv (init_state b)"
  by (simp add: position_inv_def init_state_def paired_log_def)

lemma position_inv_record_value [simp]: "position_inv (record_value r st) = position_inv st"
  by (simp add: position_inv_def record_value_def)

lemma execute_buy_position_inv:
  assumes "position_inv st" and "shares st = 0" and "execute_buy b st r = Inr st'"
  shows "position_inv st'"
proof (cases "shares_to_buy b st (Close r)")
  case (Inl e)
  with assms(3) show ?thesis by (simp add: execute_buy_def)
next
  case (Inr n)
  show ?thesis
  proof (cases "0 < n")
    case False
    with Inr assms show ?thesis by (simp add: execute_buy_def)
  next
    case True
    from assms(1,2) have ev: "even (length (trade_log st))" and pl: "paired_log (trade_log st)"
      by (auto simp: position_inv_def)
    from True Inr assms(3) obtain t where
      st': "st' = st\<lparr>cash := cash st - (real_of_int n * Close r + buy_commission b st),
                     shares := shares st + n, trade_log := trade_log st @ [t]\<rparr>"
      and t: "Action t = ''BUY''" "Cost t \<noteq> None"
      by (auto simp: execute_buy_def Let_def buy_trade_def)
    from pl ev t have "paired_log (trade_log st @ [t])"
      by (intro paired_log_snoc) auto
    with True ev assms(2) show ?thesis
      by (simp add: position_inv_def st')
  qed
qed

lemma execute_sell_position_inv:
  assumes "position_inv st" and "0 < shares st"
  shows "position_inv (execute_sell b st r)"
proof -
  from assms have od: "odd (length (trade_log st))" and pl: "paired_log (trade_log st)"
    by (auto simp: position_inv_def)
  have "paired_log (trade_log st @
      [sell_trade (Date r) (shares st) (Close r) (real_of_int (shares st) * Close r)
         (real_of_int (shares st) * Close r * commission b)
         (cash st + (real_of_int (shares st) * Close r -
            real_of_int (shares st) * Close r * commission b))])"
    using pl od by (intro paired_log_snoc) (auto simp: sell_trade_def)
  with od show ?thesis
    by (simp add: position_inv_def execute_sell_def Let_def)
qed

lemma trade_step_position_inv:
  assumes "position_inv st" and "trade_step b st r = Inr st'"
  shows "position_inv st'"
proof -
  consider (buy) "Signal r = 1 \<and> shares st = 0"
    | (sell) "\<not> (Signal r = 1 \<and> shares st = 0)" "Signal r = - 1 \<and> 0 < shares st"
    | (hold) "\<not> (Signal r = 1 \<and> shares st = 0)" "\<not> (Signal r = - 1 \<and> 0 < shares st)"
    by blast
  then show ?thesis
  proof cases
    case buy
    with assms(2) obtain st1 where "execute_buy b st r = Inr st1" and "st' = record_value r st1"
      by (auto simp: trade_step_def split: sum.splits)
    with assms(1) buy show ?thesis
      by (auto dest: execute_buy_position_inv)
  next
    case sell
    with assms(2) have "st' = record_value r (execute_sell b st r)"
      by (auto simp: trade_step_def)
    with assms(1) sell show ?thesis
      by (simp add: execute_sell_position_inv)
  next
    case hold
    with assms show ?thesis by (auto simp: trade_step_def)
  qed
qed

lemma run_loop_position_inv:
  "position_inv st \<Longrightarrow> run_loop b st rs = Inr st' \<Longrightarrow> position_inv st'"
proof (induction rs arbitrary: st)
  case Nil
  then show ?case by simp
next
  case (Cons r rs)
  from Cons.prems(2) obtain st1 where s1: "trade_step b st r = Inr st1"
    and rest: "run_loop b st1 rs = Inr st'"
    by (auto split: sum.splits)
  from Cons.prems(1) s1 have "position_inv st1" by (rule trade_step_position_inv)
  then show ?case using rest by (rule Cons.IH)
qed



lemma trade_step_log_growth:
  assumes "trade_step b st r = Inr st'"
  shows "trade_log st' = trade_log st
       \<or> (\<exists>t. trade_log st' = trade_log st @ [t]
              \<and> (Action t = ''BUY'' \<and> Signal r = 1 \<and> shares st = 0
                 \<or> Action t = ''SELL'' \<and> Signal r = - 1 \<and> 0 < shares st))"
  using assms
  by (auto simp: trade_step_def execute_buy_def execute_sell_def record_value_def Let_def
      buy_trade_def sell_trade_def split: if_splits sum.splits)

lemma trade_step_inapplicable:
  assumes "Signal r = 1 \<and> shares st \<noteq> 0 \<or> Signal r = - 1 \<and> shares st \<le> 0"
  shows "trade_step b st r = Inr (record_value r st)"
  using assms by (auto simp: trade_step_def)

lemma paired_log_actions:
  assumes "paired_log ts"
  shows "(\<forall>i<length ts. Action (ts ! i) = (if even i then ''BUY'' else ''SELL''))
       \<and> (\<forall>i. Suc i < length ts \<longrightarrow> Action (ts ! i) \<noteq> Action (ts ! Suc i))"
proof -
  from assms have a: "\<forall>i<length ts. Action (ts ! i) = (if even i then ''BUY'' else ''SELL'')"
    unfolding paired_log_def by (auto split: if_splits)
  have "Action (ts ! i) \<noteq> Action (ts ! Suc i)" if "Suc i < length ts" for i
  proof -
    from that a have "Action (ts ! i) = (if even i then ''BUY'' else ''SELL'')"
      and "Action (ts ! Suc i) = (if even (Suc i) then ''BUY'' else ''SELL'')"
      by simp_all
    then show ?thesis by (cases "even i") simp_all
  qed
  with a show ?thesis by blast
qed

text \<open>
  Claim C5. A BUY entry is appended only in a period with signal \<open>1\<close> and no shares, a
  SELL entry only in a period with signal \<open>- 1\<close> and shares held; a Buy signal while
  shares are held and a Sell signal while none are held append the snapshot and change
  nothing else, without error; and the trade log of every run from the initial state
  reads BUY, SELL, BUY, ... so no two neighbours have the same action.
\<close>

theorem C5_position_gate:
  "(trade_step b st r = Inr st' \<longrightarrow>
      trade_log st' = trade_log st
      \<or> (\<exists>t. trade_log st' = trade_log st @ [t]
             \<and> (Action t = ''BUY'' \<and> Signal r = 1 \<and> shares st = 0
                \<or> Action t = ''SELL'' \<and> Signal r = - 1 \<and> 0 < shares st)))
   \<and> (Signal r = 1 \<and> shares st \<noteq> 0 \<or> Signal r = - 1 \<and> shares st \<le> 0 \<longrightarrow>
        trade_step b st r = Inr (record_value r st))
   \<and> (run_loop b (init_state b) data = Inr fin \<longrightarrow>
        (\<forall>i<length (trade_log fin).
            Action (trade_log fin ! i) = (if even i then ''BUY'' else ''SELL''))
        \<and> (\<forall>i. Suc i < length (trade_log fin) \<longrightarrow>
              Action (trade_log fin ! i) \<noteq> Action (trade_log fin ! Suc i)))"
proof (intro conjI impI)
  assume "trade_step b st r = Inr st'"
  then show "trade_log st' = trade_log st
      \<or> (\<exists>t. trade_log st' = trade_log st @ [t]
             \<and> (Action t = ''BUY'' \<and> Signal r = 1 \<and> shares st = 0
                \<or> Action t = ''SELL'' \<and> Signal r = - 1 \<and> 0 < shares st))"
    by (rule trade_step_log_growth)
next
  assume "Signal r = 1 \<and> shares st \<noteq> 0 \<or> Signal r = - 1 \<and> shares st \<le> 0"
  then show "trade_step b st r = Inr (record_value r st)"
    by (rule trade_step_inapplicable)
next
  assume run: "run_loop b (init_state b) data = Inr fin"
  have "position_inv fin"
    using position_inv_init run by (rule run_loop_position_inv)
  then have pl: "paired_log (trade_log fin)" by (simp add: position_inv_def)
  from paired_log_actions [OF pl]
  show "\<forall>i<length (trade_log fin).
            Action (trade_log fin ! i) = (if even i then ''BUY'' else ''SELL'')"
    and "\<forall>i. Suc i < length (trade_log fin) \<longrightarrow>
              Action (trade_log fin ! i) \<noteq> Action (trade_log fin ! Suc i)"
    by blast+
qed

lemma run_two_round_trips:
  "run_loop \<lparr>initial_capital = 1000, commission = 0\<rparr>
     (init_state \<lparr>initial_capital = 1000, commission = 0\<rparr>)
     [\<lparr>Date = 0, Close = 10, Signal = 1, Position = 1\<rparr>,
      \<lparr>Date = 1, Close = 10, Signal = 1, Position = 1\<rparr>,
      \<lparr>Date = 2, Close = 20, Signal = - 1, Position = 0\<rparr>,
      \<lparr>Date = 3, Close = 20, Signal = - 1, Position = 0\<rparr>,
      \<lparr>Date = 4, Close = 40, Signal = 1, Position = 1\<rparr>]
   = Inr \<lparr>cash = 0, shares = 50,
          trade_log = [buy_trade 0 100 10 1000 0 0 100, sell_trade 2 100 20 2000 0 2000,
                       buy_trade 4 50 40 2000 0 0 50],
          portfolio_values =
            [\<lparr>sDate = 0, Cash = 0, Shares = 100, Price = 10, Portfolio_Value = 1000\<rparr>,
             \<lparr>sDate = 1, Cash = 0, Shares = 100, Price = 10, Portfolio_Value = 1000\<rparr>,
             \<lparr>sDate = 2, Cash = 2000, Shares = 0, Price = 20, Portfolio_Value = 2000\<rparr>,
             \<lparr>sDate = 3, Cash = 2000, Shares = 0, Price = 20, Portfolio_Value = 2000\<rparr>,
             \<lparr>sDate = 4, Cash = 0, Shares = 50, Price = 40, Portfolio_Value = 2000\<rparr>]\<rparr>"
  by (simp add: init_state_def trade_step_def execute_buy_def execute_sell_def shares_to_buy_def
      available_cash_def buy_commission_def py_int_def record_value_def Let_def)

theorem C5_position_gate_witness:
  "trade_step \<lparr>initial_capital = 1000, commission = 0\<rparr>
      \<lparr>cash = 0, shares = 100, trade_log = [buy_trade 0 100 10 1000 0 0 100], portfolio_values = []\<rparr>
      \<lparr>Date = 1, Close = 10, Signal = 1, Position = 1\<rparr>
    = Inr \<lparr>cash = 0, shares = 100, trade_log = [buy_trade 0 100 10 1000 0 0 100],
           portfolio_values =
             [\<lparr>sDate = 1, Cash = 0, Shares = 100, Price = 10, Portfolio_Value = 1000\<rparr>]\<rparr>
   \<and> (\<exists>fin. run_loop \<lparr>initial_capital = 1000, commission = 0\<rparr>
          (init_state \<lparr>initial_capital = 1000, commission = 0\<rparr>)
          [\<lparr>Date = 0, Close = 10, Signal = 1, Position = 1\<rparr>,
           \<lparr>Date = 1, Close = 10, Signal = 1, Position = 1\<rparr>,
           \<lparr>Date = 2, Close = 20, Signal = - 1, Position = 0\<rparr>,
           \<lparr>Date = 3, Close = 20, Signal = - 1, Position = 0\<rparr>,
           \<lparr>Date = 4, Close = 40, Signal = 1, Position = 1\<rparr>] = Inr fin
        \<and> map Action (trade_log fin) = [''BUY'', ''SELL'', ''BUY'']
        \<and> (\<forall>i<length (trade_log fin).
              Action (trade_log fin ! i) = (if even i then ''BUY'' else ''SELL'')))"
  using C5_position_gate [of "\<lparr>initial_capital = 1000, commission = 0\<rparr>"
      "\<lparr>cash = 0, shares = 100, trade_log = [buy_trade 0 100 10 1000 0 0 100], portfolio_values = []\<rparr>"
      "\<lparr>Date = 1, Close = 10, Signal = 1, Position = 1\<rparr>"
      "\<lparr>cash = 0, shares = 100, trade_log = [buy_trade 0 100 10 1000 0 0 100],
           portfolio_values =
             [\<lparr>sDate = 1, Cash = 0, Shares = 100, Price = 10, Portfolio_Value = 1000\<rparr>]\<rparr>"
      "[\<lparr>Date = 0, Close = 10, Signal = 1, Position = 1\<rparr>,
      \<lparr>Date = 1, Close = 10, Signal = 1, Position = 1\<rparr>,
      \<lparr>Date = 2, Close = 20, Signal = - 1, Position = 0\<rparr>,
      \<lparr>Date = 3, Close = 20, Signal = - 1, Position = 0\<rparr>,
      \<lparr>Date = 4, Close = 40, Signal = 1, Position = 1\<rparr>]"
      "\<lparr>cash = 0, shares = 50,
          trade_log = [buy_trade 0 100 10 1000 0 0 100, sell_trade 2 100 20 2000 0 2000,
                       buy_trade 4 50 40 2000 0 0 50],
          portfolio_values =
            [\<lparr>sDate = 0, Cash = 0, Shares = 100, Price = 10, Portfolio_Value = 1000\<rparr>,
             \<lparr>sDate = 1, Cash = 0, Shares = 100, Price = 10, Portfolio_Value = 1000\<rparr>,
             \<lparr>sDate = 2, Cash = 2000, Shares = 0, Price = 20, Portfolio_Value = 2000\<rparr>,
             \<lparr>sDate = 3, Cash = 2000, Shares = 0, Price = 20, Portfolio_Value = 2000\<rparr>,
             \<lparr>sDate = 4, Cash = 0, Shares = 50, Price = 40, Portfolio_Value = 2000\<rparr>]\<rparr>"]
  unfolding run_two_round_trips
  by (simp add: record_value_def buy_trade_def sell_trade_def)














section \<open>The scenario with flat prices\<close>

lemmas sim_defs = init_state_def trade_step_def execute_buy_def execute_sell_def shares_to_buy_def
  available_cash_def buy_commission_def py_int_def record_value_def Let_def

lemma flat_price_run: "run_loop \<lparr>initial_capital = 10000, commission = 0.001\<rparr>
        (init_state \<lparr>initial_capital = 10000, commission = 0.001\<rparr>)
        [\<lparr>Date = 0, Close = 100, Signal = 0, Position = 0\<rparr>,
         \<lparr>Date = 1, Close = 100, Signal = 1, Position = 1\<rparr>,
         \<lparr>Date = 2, Close = 100, Signal = - 1, Position = 0\<rparr>] = 
  Inr \<lparr>cash = 9980.1, shares = 0,
        trade_log = [buy_trade 1 99 100 9900 10 90 99, sell_trade 2 99 100 9900 9.9 9980.1],
        portfolio_values =
          [\<lparr>sDate = 0, Cash = 10000, Shares = 0, Price = 100, Portfolio_Value = 10000\<rparr>,
           \<lparr>sDate = 1, Cash = 90, Shares = 99, Price = 100, Portfolio_Value = 9990\<rparr>,
           \<lparr>sDate = 2, Cash = 9980.1, Shares = 0, Price = 100, Portfolio_Value = 9980.1\<rparr>]\<rparr>"
  by (simp add: sim_defs)

text \<open>
  Claim C6. Capital 10000, commission rate 0.001, prices 100, 100, 100 and signals Hold,
  Buy, Sell: the Buy period takes a commission of 10 on an available cash of 9990 and
  buys 99 shares for 9900, leaving a cash of 90; the Sell period has proceeds 9900 and
  commission 9.9, leaving 9980.1; the final value is 9980.1 with no shares, a total
  return of \<open>- 0.199\<close> percent.
\<close>

theorem C6_scenario:
  "(case run_loop \<lparr>initial_capital = 10000, commission = 0.001\<rparr>
        (init_state \<lparr>initial_capital = 10000, commission = 0.001\<rparr>)
        [\<lparr>Date = 0, Close = 100, Signal = 0, Position = 0\<rparr>] of
      Inr st \<Rightarrow>
        buy_commission \<lparr>initial_capital = 10000, commission = 0.001\<rparr> st = 10
        \<and> available_cash \<lparr>initial_capital = 10000, commission = 0.001\<rparr> st = 9990
        \<and> shares_to_buy \<lparr>initial_capital = 10000, commission = 0.001\<rparr> st 100 = Inr 99
    | Inl e \<Rightarrow> False)
   \<and> (case run_backtest \<lparr>initial_capital = 10000, commission = 0.001\<rparr>
        [\<lparr>Date = 0, Close = 100, Signal = 0, Position = 0\<rparr>,
         \<lparr>Date = 1, Close = 100, Signal = 1, Position = 1\<rparr>,
         \<lparr>Date = 2, Close = 100, Signal = - 1, Position = 0\<rparr>] of
      Inr (trades, pvs, Some res) \<Rightarrow>
        trades = [buy_trade 1 99 100 9900 10 90 99, sell_trade 2 99 100 9900 9.9 9980.1]
        \<and> map Cash pvs = [10000, 90, 9980.1]
        \<and> map Shares pvs = [0, 99, 0]
        \<and> map Portfolio_Value pvs = [10000, 9990, 9980.1]
        \<and> final_value res = 9980.1
        \<and> total_return_pct res = - 0.199
    | _ \<Rightarrow> False)"
proof (rule conjI)
  show "case run_loop \<lparr>initial_capital = 10000, commission = 0.001\<rparr>
        (init_state \<lparr>initial_capital = 10000, commission = 0.001\<rparr>)
        [\<lparr>Date = 0, Close = 100, Signal = 0, Position = 0\<rparr>] of
      Inr st \<Rightarrow>
        buy_commission \<lparr>initial_capital = 10000, commission = 0.001\<rparr> st = 10
        \<and> available_cash \<lparr>initial_capital = 10000, commission = 0.001\<rparr> st = 9990
        \<and> shares_to_buy \<lparr>initial_capital = 10000, commission = 0.001\<rparr> st 100 = Inr 99
    | Inl e \<Rightarrow> False"
    by (simp add: sim_defs)
next
  show "case run_backtest \<lparr>initial_capital = 10000, commission = 0.001\<rparr>
        [\<lparr>Date = 0, Close = 100, Signal = 0, Position = 0\<rparr>,
         \<lparr>Date = 1, Close = 100, Signal = 1, Position = 1\<rparr>,
         \<lparr>Date = 2, Close = 100, Signal = - 1, Position = 0\<rparr>] of
      Inr (trades, pvs, Some res) \<Rightarrow>
        trades = [buy_trade 1 99 100 9900 10 90 99, sell_trade 2 99 100 9900 9.9 9980.1]
        \<and> map Cash pvs = [10000, 90, 9980.1]
        \<and> map Shares pvs = [0, 99, 0]
        \<and> map Portfolio_Value pvs = [10000, 9990, 9980.1]
        \<and> final_value res = 9980.1
        \<and> total_return_pct res = - 0.199
    | _ \<Rightarrow> False"
    unfolding run_backtest_def flat_price_run
    by (simp add: calculate_performance_metrics_def strategy_return_def buy_hold_def np_divide_def
        pct_change_def expanding_max_def win_rate_block_def compile_results_def buy_trade_def
        sell_trade_def)
qed

section \<open>The Position column\<close>

lemma record_value_ignores_position:
  "record_value (r\<lparr>Position := p\<rparr>) st = record_value r st"
  by (simp add: record_value_def)

lemma execute_buy_ignores_position:
  "execute_buy b st (r\<lparr>Position := p\<rparr>) = execute_buy b st r"
  by (simp add: execute_buy_def split: sum.splits)

lemma execute_sell_ignores_position:
  "execute_sell b st (r\<lparr>Position := p\<rparr>) = execute_sell b st r"
  by (simp add: execute_sell_def)

lemma trade_step_ignores_position:
  "trade_step b st (r\<lparr>Position := p\<rparr>) = trade_step b st r"
  by (simp add: trade_step_def execute_buy_ignores_position execute_sell_ignores_position
      record_value_ignores_position split: sum.splits)

lemma run_loop_ignores_position:
  "run_loop b st (map (\<lambda>r. r\<lparr>Position := 0\<rparr>) rs) = run_loop b st rs"
  by (induction rs arbitrary: st)
    (simp_all add: trade_step_ignores_position split: sum.splits)

lemma buy_hold_ignores_position:
  "buy_hold (map (\<lambda>r. r\<lparr>Position := 0\<rparr>) rs) = buy_hold rs"
  by (cases "rs = []") (simp_all add: buy_hold_def hd_map last_map)

lemma metrics_ignore_position:
  "calculate_performance_metrics b ts pvs (map (\<lambda>r. r\<lparr>Position := 0\<rparr>) rs)
     = calculate_performance_metrics b ts pvs rs"
  unfolding calculate_performance_metrics_def buy_hold_ignores_position by (rule refl)

lemma run_backtest_ignores_position:
  "run_backtest b (map (\<lambda>r. r\<lparr>Position := 0\<rparr>) rs) = run_backtest b rs"
  unfolding run_backtest_def run_loop_ignores_position metrics_ignore_position by (rule refl)

text \<open>
  Claim C10. Two inputs with the same rows up to the Position column (same dates, prices
  and signals) give the same backtest: the same trade log, the same snapshots and the
  same metrics, or the same failure.
\<close>

theorem C10_position_unused:
  assumes "length d1 = length d2"
    and "\<forall>i<length d1. Date (d1 ! i) = Date (d2 ! i) \<and> Close (d1 ! i) = Close (d2 ! i)
            \<and> Signal (d1 ! i) = Signal (d2 ! i)"
  shows "run_backtest b d1 = run_backtest b d2"
proof -
  have "map (\<lambda>r. r\<lparr>Position := 0\<rparr>) d1 = map (\<lambda>r. r\<lparr>Position := 0\<rparr>) d2"
  proof (rule nth_equalityI)
    show "length (map (\<lambda>r. r\<lparr>Position := 0\<rparr>) d1) = length (map (\<lambda>r. r\<lparr>Position := 0\<rparr>) d2)"
      using assms(1) by simp
  next
    fix i assume "i < length (map (\<lambda>r. r\<lparr>Position := 0\<rparr>) d1)"
    then have i: "i < length d1" by simp
    with assms(2) have "(d1 ! i)\<lparr>Position := 0\<rparr> = (d2 ! i)\<lparr>Position := 0\<rparr>"
      by (simp add: row.equality)
    with i assms(1) show "map (\<lambda>r. r\<lparr>Position := 0\<rparr>) d1 ! i = map (\<lambda>r. r\<lparr>Position := 0\<rparr>) d2 ! i"
      by simp
  qed
  then have "run_backtest b (map (\<lambda>r. r\<lparr>Position := 0\<rparr>) d1)
           = run_backtest b (map (\<lambda>r. r\<lparr>Position := 0\<rparr>) d2)"
    by simp
  then show ?thesis by (simp only: run_backtest_ignores_position)
qed

theorem C10_position_unused_witness:
  "run_backtest \<lparr>initial_capital = 10000, commission = 0.001\<rparr>
     [\<lparr>Date = 0, Close = 100, Signal = 1, Position = 1\<rparr>,
      \<lparr>Date = 1, Close = 120, Signal = - 1, Position = 0\<rparr>]
   = run_backtest \<lparr>initial_capital = 10000, commission = 0.001\<rparr>
     [\<lparr>Date = 0, Close = 100, Signal = 1, Position = 0\<rparr>,
      \<lparr>Date = 1, Close = 120, Signal = - 1, Position = 7\<rparr>]"
  using C10_position_unused [of
     "[\<lparr>Date = 0, Close = 100, Signal = 1, Position = 1\<rparr>,
      \<lparr>Date = 1, Close = 120, Signal = - 1, Position = 0\<rparr>]"
     "[\<lparr>Date = 0, Close = 100, Signal = 1, Position = 0\<rparr>,
      \<lparr>Date = 1, Close = 120, Signal = - 1, Position = 7\<rparr>]"
     "\<lparr>initial_capital = 10000, commission = 0.001\<rparr>"]
  by (simp add: less_Suc_eq numeral_2_eq_2)

section \<open>The divisions of the performance metrics\<close>

















section \<open>Moving averages\<close>

lemma trailing_nth:
  assumes "n \<le> Suc i" and "i < length xs"
  shows "trailing n xs i = map (\<lambda>j. xs ! (Suc i - n + j)) [0..<n]"
proof (rule nth_equalityI)
  from assms show "length (trailing n xs i) = length (map (\<lambda>j. xs ! (Suc i - n + j)) [0..<n])"
    by (simp add: trailing_def)
next
  fix j assume "j < length (trailing n xs i)"
  with assms have j: "j < n" by (simp add: trailing_def)
  with assms show "trailing n xs i ! j = map (\<lambda>j. xs ! (Suc i - n + j)) [0..<n] ! j"
    by (simp add: trailing_def)
qed

lemma sum_trailing:
  assumes "n \<le> Suc i" and "i < length xs"
  shows "sum_list (trailing n xs i) = (\<Sum>k<n. xs ! (i - k))"
proof -
  have "sum_list (trailing n xs i) = (\<Sum>j<n. xs ! (Suc i - n + j))"
    by (simp add: trailing_nth [OF assms] interv_sum_list_conv_sum_set_nat atLeast0LessThan)
  also have "\<dots> = (\<Sum>k<n. xs ! (Suc i - n + (n - Suc k)))"
    by (rule sum.nat_diff_reindex [symmetric])
  also have "\<dots> = (\<Sum>k<n. xs ! (i - k))"
  proof (rule sum.cong)
    fix k assume "k \<in> {..<n}"
    with assms(1) have "Suc i - n + (n - Suc k) = i - k" by auto
    then show "xs ! (Suc i - n + (n - Suc k)) = xs ! (i - k)" by simp
  qed simp
  finally show ?thesis .
qed

lemma rolling_mean_positive:
  assumes "0 < w"
  shows "\<exists>col. rolling_mean w xs = Inr col \<and> length col = length xs
           \<and> (\<forall>i<length xs.
                 (col ! i \<noteq> None \<longleftrightarrow> w \<le> int i + 1)
               \<and> (w \<le> int i + 1 \<longrightarrow>
                    col ! i = Some ((\<Sum>k<nat w. xs ! (i - k)) / real_of_int w)))"
proof -
  let ?col = "map (\<lambda>i. if int (Suc i) < w \<or> w = 0 then None
                          else Some (sum_list (trailing (nat w) xs i) / real (nat w)))
                    [0..<length xs]"
  from assms have r: "rolling_mean w xs = Inr ?col" by (simp add: rolling_mean_def)
  have "(?col ! i \<noteq> None \<longleftrightarrow> w \<le> int i + 1)
      \<and> (w \<le> int i + 1 \<longrightarrow> ?col ! i = Some ((\<Sum>k<nat w. xs ! (i - k)) / real_of_int w))"
    if i: "i < length xs" for i
  proof (cases "w \<le> int i + 1")
    case False
    with i show ?thesis by simp
  next
    case True
    with assms have "nat w \<le> Suc i" by simp
    from sum_trailing [OF this i] True i assms show ?thesis by simp
  qed
  with r show ?thesis by simp
qed

text \<open>
  Claim C7. For positive window sizes the two moving-average columns have the length of
  the price series; a column has a value at index \<open>i\<close> exactly when \<open>i + 1\<close> is at least
  its window, so from index \<open>window - 1\<close> on and nowhere before; and that value is the
  sum of the \<open>window\<close> prices ending at \<open>i\<close> divided by \<open>window\<close>.
\<close>

theorem C7_moving_average:
  assumes "0 < short_window" and "0 < long_window"
  shows "\<exists>short_ma long_ma.
           calculate_moving_averages prices short_window long_window = Inr (short_ma, long_ma)
         \<and> length short_ma = length prices \<and> length long_ma = length prices
         \<and> (\<forall>i<length prices.
               (short_ma ! i \<noteq> None \<longleftrightarrow> short_window \<le> int i + 1)
             \<and> (short_window \<le> int i + 1 \<longrightarrow>
                  short_ma ! i =
                    Some ((\<Sum>k<nat short_window. prices ! (i - k)) / real_of_int short_window))
             \<and> (long_ma ! i \<noteq> None \<longleftrightarrow> long_window \<le> int i + 1)
             \<and> (long_window \<le> int i + 1 \<longrightarrow>
                  long_ma ! i =
                    Some ((\<Sum>k<nat long_window. prices ! (i - k)) / real_of_int long_window)))"
proof -
  from rolling_mean_positive [OF assms(1), of prices] obtain s where
    s: "rolling_mean short_window prices = Inr s" "length s = length prices"
    "\<forall>i<length prices.
        (s ! i \<noteq> None \<longleftrightarrow> short_window \<le> int i + 1)
      \<and> (short_window \<le> int i + 1 \<longrightarrow>
           s ! i = Some ((\<Sum>k<nat short_window. prices ! (i - k)) / real_of_int short_window))"
    by blast
  from rolling_mean_positive [OF assms(2), of prices] obtain l where
    l: "rolling_mean long_window prices = Inr l" "length l = length prices"
    "\<forall>i<length prices.
        (l ! i \<noteq> None \<longleftrightarrow> long_window \<le> int i + 1)
      \<and> (long_window \<le> int i + 1 \<longrightarrow>
           l ! i = Some ((\<Sum>k<nat long_window. prices ! (i - k)) / real_of_int long_window))"
    by blast
  from s(1) l(1) have "calculate_moving_averages prices short_window long_window = Inr (s, l)"
    by (simp add: calculate_moving_averages_def)
  with s(2,3) l(2,3) show ?thesis by blast
qed

theorem C7_moving_average_witness:
  "calculate_moving_averages [1, 2, 3, 6] 2 3
     = Inr ([None, Some (3 / 2), Some (5 / 2), Some (9 / 2)], [None, None, Some 2, Some (11 / 3)])"
  using C7_moving_average [of 2 3 "[1, 2, 3, 6]"]
  by (simp add: calculate_moving_averages_def rolling_mean_def trailing_def upt_rec)

text \<open>
  Claim C8, as amended. \<^verbatim>\<open>calculate_moving_averages\<close> makes no check of its windows:
  for positive window sizes in any order, \<open>short \<ge> long\<close> included, it returns the two
  columns; a negative window fails inside the rolling-window library with ValueError.
\<close>

theorem C8_no_window_check:
  "(0 < short_window \<and> 0 < long_window \<longrightarrow>
      (\<exists>short_ma long_ma.
         calculate_moving_averages prices short_window long_window = Inr (short_ma, long_ma)))
   \<and> (short_window < 0 \<or> long_window < 0 \<longrightarrow>
        calculate_moving_averages prices short_window long_window = Inl ValueError)"
  by (auto simp: calculate_moving_averages_def rolling_mean_def)

theorem C8_no_window_check_witness:
  "(\<exists>short_ma long_ma. calculate_moving_averages [1, 2, 3] 3 2 = Inr (short_ma, long_ma))
   \<and> calculate_moving_averages [1, 2, 3] 3 (- 1) = Inl ValueError"
  using C8_no_window_check [of 3 2 "[1, 2, 3]"] C8_no_window_check [of 3 "- 1" "[1, 2, 3]"]
  by simp

text \<open>
  Claim C8 as stated fails: with \<open>short = 3\<close>, \<open>long = 2\<close> and with \<open>short = long = 2\<close>
  the function returns its columns.
\<close>

theorem C8_counterexample:
  "calculate_moving_averages [1, 2, 3] 3 2 = Inr ([None, None, Some 2], [None, Some (3 / 2), Some (5 / 2)])
 \<and> calculate_moving_averages [1, 2, 3] 2 2
      = Inr ([None, Some (3 / 2), Some (5 / 2)], [None, Some (3 / 2), Some (5 / 2)])"
  by (simp add: calculate_moving_averages_def rolling_mean_def trailing_def upt_rec)

section \<open>Crossover signals\<close>

lemma dropna_snoc:
  "dropna k (rows @ [r]) =
     dropna k rows @ (case r of (Some s, Some l) \<Rightarrow> [(k + length rows, s, l)] | _ \<Rightarrow> [])"
  by (induction k rows rule: dropna.induct) (auto split: option.splits prod.splits)

lemma dropna_bounds:
  "(i, s, l) \<in> set (dropna k rows) \<Longrightarrow> k \<le> i \<and> i < k + length rows"
  by (induction k rows rule: dropna.induct) fastforce+

lemma last_valid_snoc:
  "last_valid (rows @ [r]) =
     (case r of (Some s, Some l) \<Rightarrow> Some (s, l) | _ \<Rightarrow> last_valid rows)"
  by (induction rows) (auto split: option.splits prod.splits)

lemma last_valid_dropna:
  "last_valid rows = (if dropna k rows = [] then None else Some (snd (last (dropna k rows))))"
proof (induction rows rule: rev_induct)
  case Nil
  show ?case by simp
next
  case (snoc r rows)
  show ?case
    by (cases r; cases "fst r"; cases "snd r")
      (auto simp: last_valid_snoc dropna_snoc snoc.IH)
qed

lemma signal_step_length [simp]: "length (signal_step vd i sig) = length sig"
  by (simp add: signal_step_def split: prod.splits)

lemma fold_signal_length [simp]: "length (fold (signal_step vd) ks sig) = length sig"
  by (induction ks arbitrary: sig) simp_all

lemma signal_column_fold:
  "signal_column rows =
     fold (signal_step (dropna 0 rows)) [1..<length (dropna 0 rows)] (replicate (length rows) 0)"
  by (simp add: signal_column_def Let_def)

lemma signal_column_length [simp]: "length (signal_column rows) = length rows"
  by (simp add: signal_column_fold)

lemma signal_step_more_rows:
  "0 < i \<Longrightarrow> i < length vd \<Longrightarrow> signal_step (vd @ ex) i sig = signal_step vd i sig"
  by (simp add: signal_step_def nth_append less_imp_diff_less)

lemma fold_signal_more_rows:
  "\<forall>k\<in>set ks. 0 < k \<and> k < length vd \<Longrightarrow>
   fold (signal_step (vd @ ex)) ks sig = fold (signal_step vd) ks sig"
  by (induction ks arbitrary: sig) (simp_all add: signal_step_more_rows)

lemma signal_step_longer_column:
  "fst (vd ! i) < length sig \<Longrightarrow> signal_step vd i (sig @ t) = signal_step vd i sig @ t"
  by (auto simp: signal_step_def list_update_append1 split: prod.splits)

lemma fold_signal_longer_column:
  "\<forall>k\<in>set ks. fst (vd ! k) < length sig \<Longrightarrow>
   fold (signal_step vd) ks (sig @ t) = fold (signal_step vd) ks sig @ t"
  by (induction ks arbitrary: sig) (simp_all add: signal_step_longer_column)

lemma dropna_labels:
  "k < length (dropna 0 rows) \<Longrightarrow> fst (dropna 0 rows ! k) < length rows"
proof -
  assume "k < length (dropna 0 rows)"
  then have "dropna 0 rows ! k \<in> set (dropna 0 rows)" by simp
  then have "(fst (dropna 0 rows ! k), snd (dropna 0 rows ! k)) \<in> set (dropna 0 rows)" by simp
  then show ?thesis
    using dropna_bounds [of "fst (dropna 0 rows ! k)" "fst (snd (dropna 0 rows ! k))"
        "snd (snd (dropna 0 rows ! k))" 0 rows]
    by simp
qed

lemma signal_column_snoc_undefined:
  assumes "\<not> both_exist r"
  shows "signal_column (rows @ [r]) = signal_column rows @ [0]"
proof -
  from assms have d: "dropna 0 (rows @ [r]) = dropna 0 rows"
    by (auto simp: dropna_snoc both_exist_def split: prod.splits option.splits)
  have "fold (signal_step (dropna 0 rows)) [1..<length (dropna 0 rows)] (replicate (length rows) 0 @ [0])
      = fold (signal_step (dropna 0 rows)) [1..<length (dropna 0 rows)] (replicate (length rows) 0) @ [0]"
    by (rule fold_signal_longer_column) (simp add: dropna_labels)
  then show ?thesis
    by (simp add: signal_column_fold d replicate_append_same)
qed

lemma signal_column_snoc_defined:
  "signal_column (rows @ [(Some s, Some l)]) =
     signal_column rows @
       [case last_valid rows of None \<Rightarrow> 0 | Some (ps, pl) \<Rightarrow> crossover ps pl s l]"
proof -
  let ?vd = "dropna 0 rows"
  let ?n = "length rows"
  let ?m = "length ?vd"
  let ?vd' = "?vd @ [(?n, s, l)]"
  have d: "dropna 0 (rows @ [(Some s, Some l)]) = ?vd'"
    by (simp add: dropna_snoc)
  have pre: "fold (signal_step ?vd') [1..<?m] (replicate ?n 0 @ [0]) = signal_column rows @ [0]"
  proof -
    have "fold (signal_step ?vd') [1..<?m] (replicate ?n 0 @ [0])
        = fold (signal_step ?vd) [1..<?m] (replicate ?n 0 @ [0])"
      by (rule fold_signal_more_rows) simp
    also have "\<dots> = fold (signal_step ?vd) [1..<?m] (replicate ?n 0) @ [0]"
      by (rule fold_signal_longer_column) (simp add: dropna_labels)
    finally show ?thesis by (simp add: signal_column_fold)
  qed
  show ?thesis
  proof (cases "?vd = []")
    case True
    then have "last_valid rows = None" by (simp add: last_valid_dropna [of rows 0])
    with True show ?thesis
      using pre by (simp add: signal_column_fold d replicate_append_same)
  next
    case False
    then have m: "1 \<le> ?m" by (cases ?vd) simp_all
    obtain pi ps pl where lst: "last ?vd = (pi, ps, pl)" by (cases "last ?vd") auto
    with False have lv: "last_valid rows = Some (ps, pl)"
      by (simp add: last_valid_dropna [of rows 0])
    from False lst have prev: "?vd' ! (?m - 1) = (pi, ps, pl)"
      by (simp add: nth_append last_conv_nth)
    have cur: "?vd' ! ?m = (?n, s, l)" by simp
    from m have "[1..<Suc ?m] = [1..<?m] @ [?m]" by (rule upt_Suc_append)
    then have "signal_column (rows @ [(Some s, Some l)])
             = signal_step ?vd' ?m (fold (signal_step ?vd') [1..<?m] (replicate ?n 0 @ [0]))"
      by (simp add: signal_column_fold d replicate_append_same del: upt_Suc)
    also have "\<dots> = signal_step ?vd' ?m (signal_column rows @ [0])"
      by (simp only: pre)
    also have "\<dots> = signal_column rows @ [crossover ps pl s l]"
      unfolding signal_step_def cur prev
      by (simp add: crossover_def list_update_append)
    finally show ?thesis by (simp add: lv)
  qed
qed

lemma signal_column_snoc:
  "signal_column (rows @ [r]) = signal_column rows @ [expected_signal (last_valid rows) r]"
proof (cases "both_exist r")
  case True
  then obtain s l where "r = (Some s, Some l)"
    by (cases r) (auto simp: both_exist_def)
  then show ?thesis
    by (simp add: signal_column_snoc_defined expected_signal_def)
next
  case False
  then have "expected_signal (last_valid rows) r = 0"
    by (auto simp: expected_signal_def both_exist_def split: prod.splits option.splits)
  with False show ?thesis by (simp add: signal_column_snoc_undefined)
qed

lemma signal_column_nth:
  "i < length rows \<Longrightarrow>
   signal_column rows ! i = expected_signal (last_valid (take i rows)) (rows ! i)"
proof (induction rows rule: rev_induct)
  case Nil
  then show ?case by simp
next
  case (snoc r rows)
  show ?case
  proof (cases "i < length rows")
    case True
    with snoc.IH show ?thesis
      by (simp add: signal_column_snoc nth_append)
  next
    case False
    with snoc.prems have "i = length rows" by simp
    then show ?thesis
      by (simp add: signal_column_snoc nth_append)
  qed
qed

lemma last_valid_None_iff:
  "last_valid rows = None \<longleftrightarrow> (\<forall>j<length rows. \<not> both_exist (rows ! j))"
proof (induction rows rule: rev_induct)
  case Nil
  show ?case by simp
next
  case (snoc r rows)
  show ?case
  proof (cases "both_exist r")
    case True
    then obtain s l where r: "r = (Some s, Some l)"
      by (cases r) (auto simp: both_exist_def)
    have "both_exist ((rows @ [r]) ! length rows)" using True by simp
    then have "\<not> (\<forall>j<length (rows @ [r]). \<not> both_exist ((rows @ [r]) ! j))"
      by (metis length_append_singleton lessI)
    then show ?thesis by (simp add: last_valid_snoc r)
  next
    case False
    then have "last_valid (rows @ [r]) = last_valid rows"
      by (auto simp: last_valid_snoc both_exist_def split: prod.splits option.splits)
    with False snoc.IH show ?thesis
      by (auto simp: nth_append less_Suc_eq)
  qed
qed

lemma last_valid_Some_iff:
  "last_valid rows = Some (ps, pl) \<longleftrightarrow>
     (\<exists>j<length rows. rows ! j = (Some ps, Some pl)
        \<and> (\<forall>k. j < k \<and> k < length rows \<longrightarrow> \<not> both_exist (rows ! k)))"
proof (induction rows rule: rev_induct)
  case Nil
  show ?case by simp
next
  case (snoc r rows)
  let ?n = "length rows"
  show ?case
  proof (cases "both_exist r")
    case True
    then obtain s l where r: "r = (Some s, Some l)"
      by (cases r) (auto simp: both_exist_def)
    have "(\<exists>j<length (rows @ [r]). (rows @ [r]) ! j = (Some ps, Some pl)
        \<and> (\<forall>k. j < k \<and> k < length (rows @ [r]) \<longrightarrow> \<not> both_exist ((rows @ [r]) ! k)))
      \<longleftrightarrow> (s, l) = (ps, pl)"
    proof
      assume "\<exists>j<length (rows @ [r]). (rows @ [r]) ! j = (Some ps, Some pl)
        \<and> (\<forall>k. j < k \<and> k < length (rows @ [r]) \<longrightarrow> \<not> both_exist ((rows @ [r]) ! k))"
      then obtain j where j: "j < Suc ?n" "(rows @ [r]) ! j = (Some ps, Some pl)"
        and none: "\<forall>k. j < k \<and> k < Suc ?n \<longrightarrow> \<not> both_exist ((rows @ [r]) ! k)"
        by auto
      have "j = ?n"
      proof (rule ccontr)
        assume "j \<noteq> ?n"
        with j(1) have "j < ?n" by simp
        with none have "\<not> both_exist ((rows @ [r]) ! ?n)" by blast
        with True show False by simp
      qed
      with j(2) r show "(s, l) = (ps, pl)" by simp
    next
      assume "(s, l) = (ps, pl)"
      with r have "(rows @ [r]) ! ?n = (Some ps, Some pl)" by simp
      then show "\<exists>j<length (rows @ [r]). (rows @ [r]) ! j = (Some ps, Some pl)
        \<and> (\<forall>k. j < k \<and> k < length (rows @ [r]) \<longrightarrow> \<not> both_exist ((rows @ [r]) ! k))"
        by (intro exI [of _ ?n]) auto
    qed
    then show ?thesis by (simp add: last_valid_snoc r)
  next
    case False
    then have lv: "last_valid (rows @ [r]) = last_valid rows"
      by (auto simp: last_valid_snoc both_exist_def split: prod.splits option.splits)
    from False have ne: "r \<noteq> (Some ps, Some pl)" by (auto simp: both_exist_def)
    have "(\<exists>j<length (rows @ [r]). (rows @ [r]) ! j = (Some ps, Some pl)
        \<and> (\<forall>k. j < k \<and> k < length (rows @ [r]) \<longrightarrow> \<not> both_exist ((rows @ [r]) ! k)))
      \<longleftrightarrow> (\<exists>j<?n. rows ! j = (Some ps, Some pl)
        \<and> (\<forall>k. j < k \<and> k < ?n \<longrightarrow> \<not> both_exist (rows ! k)))"
      using False ne by (auto simp: nth_append less_Suc_eq)
    with lv snoc.IH show ?thesis by simp
  qed
qed

lemma crossover_buy_iff: "crossover ps pl s l = 1 \<longleftrightarrow> ps \<le> pl \<and> l < s"
  by (simp add: crossover_def)

lemma crossover_sell_iff: "crossover ps pl s l = - 1 \<longleftrightarrow> pl \<le> ps \<and> s < l"
  by (auto simp: crossover_def)

lemma crossover_range: "crossover ps pl s l \<in> {1, - 1, 0}"
  by (simp add: crossover_def)

lemma expected_signal_range: "expected_signal prev r \<in> {1, - 1, 0}"
  using crossover_range
  by (auto simp: expected_signal_def split: prod.splits option.splits)

lemma previous_valid_row:
  assumes "i < length rows"
  shows "last_valid (take i rows) = Some (ps, pl) \<longleftrightarrow>
     (\<exists>j<i. rows ! j = (Some ps, Some pl)
        \<and> (\<forall>k. j < k \<and> k < i \<longrightarrow> fst (rows ! k) = None \<or> snd (rows ! k) = None))"
proof -
  from assms have len: "length (take i rows) = i" by simp
  have "last_valid (take i rows) = Some (ps, pl) \<longleftrightarrow>
     (\<exists>j<i. take i rows ! j = (Some ps, Some pl)
        \<and> (\<forall>k. j < k \<and> k < i \<longrightarrow> \<not> both_exist (take i rows ! k)))"
    using last_valid_Some_iff [of "take i rows" ps pl] by (simp only: len)
  also have "\<dots> \<longleftrightarrow> (\<exists>j<i. rows ! j = (Some ps, Some pl)
        \<and> (\<forall>k. j < k \<and> k < i \<longrightarrow> fst (rows ! k) = None \<or> snd (rows ! k) = None))"
    by (auto simp: both_exist_def)
  finally show ?thesis .
qed

lemma expected_signal_iff:
  "expected_signal prev r = v \<and> v \<noteq> 0 \<longleftrightarrow>
     (\<exists>s l ps pl. r = (Some s, Some l) \<and> prev = Some (ps, pl) \<and> crossover ps pl s l = v \<and> v \<noteq> 0)"
  by (auto simp: expected_signal_def split: prod.splits option.splits)

text \<open>
  Claim C1. At every index \<open>i\<close> of the frame the Signal column is \<open>1\<close> (Buy) exactly when
  both averages exist at \<open>i\<close> and at an earlier row \<open>j\<close> with no row between them having
  both, and \<open>prev.short \<le> prev.long\<close> and \<open>curr.short > curr.long\<close>; it is \<open>- 1\<close> (Sell)
  exactly when the same rows exist and \<open>prev.short \<ge> prev.long\<close> and
  \<open>curr.short < curr.long\<close>; and it is \<open>0\<close> (Hold) otherwise.
\<close>

theorem C1_crossover_signal:
  assumes "i < length rows"
  shows "length (fst (generate_signals rows)) = length rows
    \<and> (fst (generate_signals rows) ! i = 1 \<longleftrightarrow>
         (\<exists>s l ps pl j. rows ! i = (Some s, Some l) \<and> j < i \<and> rows ! j = (Some ps, Some pl)
            \<and> (\<forall>k. j < k \<and> k < i \<longrightarrow> fst (rows ! k) = None \<or> snd (rows ! k) = None)
            \<and> ps \<le> pl \<and> l < s))
    \<and> (fst (generate_signals rows) ! i = - 1 \<longleftrightarrow>
         (\<exists>s l ps pl j. rows ! i = (Some s, Some l) \<and> j < i \<and> rows ! j = (Some ps, Some pl)
            \<and> (\<forall>k. j < k \<and> k < i \<longrightarrow> fst (rows ! k) = None \<or> snd (rows ! k) = None)
            \<and> pl \<le> ps \<and> s < l))
    \<and> fst (generate_signals rows) ! i \<in> {1, - 1, 0}"
proof -
  let ?prev = "last_valid (take i rows)"
  have g: "fst (generate_signals rows) = signal_column rows"
    by (simp add: generate_signals_def Let_def)
  have nth: "signal_column rows ! i = expected_signal ?prev (rows ! i)"
    using assms by (rule signal_column_nth)
  have buy: "signal_column rows ! i = 1 \<longleftrightarrow>
         (\<exists>s l ps pl j. rows ! i = (Some s, Some l) \<and> j < i \<and> rows ! j = (Some ps, Some pl)
            \<and> (\<forall>k. j < k \<and> k < i \<longrightarrow> fst (rows ! k) = None \<or> snd (rows ! k) = None)
            \<and> ps \<le> pl \<and> l < s)"
  proof -
    have "signal_column rows ! i = 1 \<longleftrightarrow>
        (\<exists>s l ps pl. rows ! i = (Some s, Some l) \<and> ?prev = Some (ps, pl) \<and> ps \<le> pl \<and> l < s)"
      using expected_signal_iff [of ?prev "rows ! i" 1]
      by (simp add: nth crossover_buy_iff)
    also have "\<dots> \<longleftrightarrow>
         (\<exists>s l ps pl j. rows ! i = (Some s, Some l) \<and> j < i \<and> rows ! j = (Some ps, Some pl)
            \<and> (\<forall>k. j < k \<and> k < i \<longrightarrow> fst (rows ! k) = None \<or> snd (rows ! k) = None)
            \<and> ps \<le> pl \<and> l < s)"
      unfolding previous_valid_row [OF assms] by blast
    finally show ?thesis .
  qed
  have sell: "signal_column rows ! i = - 1 \<longleftrightarrow>
         (\<exists>s l ps pl j. rows ! i = (Some s, Some l) \<and> j < i \<and> rows ! j = (Some ps, Some pl)
            \<and> (\<forall>k. j < k \<and> k < i \<longrightarrow> fst (rows ! k) = None \<or> snd (rows ! k) = None)
            \<and> pl \<le> ps \<and> s < l)"
  proof -
    have "signal_column rows ! i = - 1 \<longleftrightarrow>
        (\<exists>s l ps pl. rows ! i = (Some s, Some l) \<and> ?prev = Some (ps, pl) \<and> pl \<le> ps \<and> s < l)"
      using expected_signal_iff [of ?prev "rows ! i" "- 1"]
      by (simp add: nth crossover_sell_iff)
    also have "\<dots> \<longleftrightarrow>
         (\<exists>s l ps pl j. rows ! i = (Some s, Some l) \<and> j < i \<and> rows ! j = (Some ps, Some pl)
            \<and> (\<forall>k. j < k \<and> k < i \<longrightarrow> fst (rows ! k) = None \<or> snd (rows ! k) = None)
            \<and> pl \<le> ps \<and> s < l)"
      unfolding previous_valid_row [OF assms] by blast
    finally show ?thesis .
  qed
  have range: "signal_column rows ! i \<in> {1, - 1, 0}"
    unfolding nth by (rule expected_signal_range)
  from buy sell range show ?thesis
    unfolding g by simp
qed

theorem C1_crossover_signal_witness:
  "fst (generate_signals [(None, None), (Some 1, Some 1), (Some 1, None), (Some 2, Some 1)]) ! 3 = 1"
  using C1_crossover_signal [of 3 "[(None, None), (Some 1, Some 1), (Some 1, None), (Some 2, Some 1)]"]
  by (simp add: generate_signals_def signal_column_def signal_step_def Let_def upt_rec)

end
